theory Spec2Isabelle
  imports Main
begin

section \<open>Objects, attributes and reentrant locks\<close>

text \<open>
  The module \<^verbatim>\<open>synchronized/__init__.py\<close> attaches a reentrant lock to an arbitrary
  Python object as the attribute \<^verbatim>\<open>__ObjectLock__\<close> and runs computations under it.
  The code is Python 2 (\<^verbatim>\<open>types.InstanceType\<close>, \<^verbatim>\<open>xrange\<close>).

  Every Python value is an object with an identity. An object is modelled by what the
  module inspects: its type as seen by \<^verbatim>\<open>type(obj)\<close>, its own attribute dictionary, and
  the objects that attribute lookup consults after that dictionary, in order (the class
  and its bases for an instance, the underlying function for a bound method).
  An object without a dictionary (a bound method, an integer) has \<open>None\<close> there, and
  \<^verbatim>\<open>setattr\<close> on it raises \<^verbatim>\<open>AttributeError\<close>; a built-in or extension type (\<^verbatim>\<open>int\<close>,
  \<^verbatim>\<open>dict\<close>, \<^verbatim>\<open>object\<close>) has a dictionary that cannot be written, and \<^verbatim>\<open>setattr\<close> on it
  raises \<^verbatim>\<open>TypeError\<close>. The objects covered have the attribute access of the language
  itself; classes that intercept it (\<^verbatim>\<open>__getattr__\<close>, \<^verbatim>\<open>__setattr__\<close>, descriptors) are
  outside the model.

  The value of an attribute is a lock or any other object; another object has no
  \<^verbatim>\<open>acquire\<close> and no \<^verbatim>\<open>release\<close>.
\<close>

type_synonym ref = nat

datatype rlock = ClassLock | NewLock nat

datatype pyval = Lock rlock | Obj ref

datatype pytype = FunctionType | MethodType | InstanceType | OtherType

record pyobj =
  ptype :: pytype
  pdict :: "(string \<rightharpoonup> pyval) option"
  readonly :: bool
  fallback :: "ref list"

text \<open>
  The state: the objects by identity, the number of locks created so far by \<^verbatim>\<open>RLock()\<close>,
  and the hold count of every lock for the running thread. \<open>ClassLock\<close> is the class
  attribute \<^verbatim>\<open>ObjectLock._lock\<close>, created once when the class is defined.
\<close>

record state =
  objs :: "ref \<Rightarrow> pyobj"
  created :: nat
  holds :: "rlock \<Rightarrow> nat"

datatype 'e exn = AttributeError | TypeError | AssertionError | Raised 'e

type_synonym ('e, 'a) outcome = "('e exn + 'a) \<times> state"

definition LOCK_NAME :: string where
  "LOCK_NAME = ''__ObjectLock__''"

subsection \<open>The lock primitive\<close>

text \<open>
  \<^verbatim>\<open>RLock()\<close> returns a new lock object, free. \<^verbatim>\<open>acquire\<close> by the running thread raises
  the hold count; \<^verbatim>\<open>release\<close> lowers it and raises \<^verbatim>\<open>AssertionError\<close> on a lock the thread
  does not hold (\<^verbatim>\<open>multiprocessing.RLock\<close>).
\<close>

definition RLock :: "state \<Rightarrow> rlock \<times> state" where
  "RLock s = (NewLock (created s),
              s\<lparr>created := Suc (created s), holds := (holds s)(NewLock (created s) := 0)\<rparr>)"

definition acquire :: "rlock \<Rightarrow> state \<Rightarrow> state" where
  "acquire l s = s\<lparr>holds := (holds s)(l := Suc (holds s l))\<rparr>"

definition release :: "rlock \<Rightarrow> state \<Rightarrow> ('e, unit) outcome" where
  "release l s =
     (if holds s l = 0 then (Inl AssertionError, s)
      else (Inr (), s\<lparr>holds := (holds s)(l := holds s l - 1)\<rparr>))"

text \<open>
  \<^verbatim>\<open>with lock: body\<close> on a lock: acquire, run the body, release on every exit path.
  An exception of the body propagates unless the release raises one itself.
\<close>

definition with_rlock :: "rlock \<Rightarrow> (state \<Rightarrow> ('e, 'a) outcome) \<Rightarrow> state \<Rightarrow> ('e, 'a) outcome" where
  "with_rlock l body s =
     (let s1 = acquire l s in
      case body s1 of (out, s2) \<Rightarrow>
        (case release l s2 of
           (Inl e, s3) \<Rightarrow> (Inl e, s3)
         | (Inr u, s3) \<Rightarrow> (out, s3)))"

text \<open>
  Between threads, the lock is the state machine of the specification: free, or held by
  one owner with a count. \<^verbatim>\<open>acquire\<close> by a thread goes through when the lock is free or
  the thread is its owner, and waits while another thread is the owner.
\<close>

type_synonym thread = nat

type_synonym owners = "rlock \<Rightarrow> (thread \<times> nat) option"


definition acquire_by :: "thread \<Rightarrow> rlock \<Rightarrow> owners \<Rightarrow> owners option" where
  "acquire_by thr l ow =
     (case ow l of
        None \<Rightarrow> Some (ow(l \<mapsto> (thr, 1)))
      | Some (who, n) \<Rightarrow> if who = thr then Some (ow(l \<mapsto> (thr, Suc n))) else None)"

definition release_by :: "thread \<Rightarrow> rlock \<Rightarrow> owners \<Rightarrow> owners option" where
  "release_by thr l ow =
     (case ow l of
        None \<Rightarrow> None
      | Some (who, n) \<Rightarrow>
          if who \<noteq> thr then None
          else if n \<le> 1 then Some (ow(l := None))
          else Some (ow(l \<mapsto> (thr, n - 1))))"

subsection \<open>Attribute access\<close>

definition own_attr :: "pyobj \<Rightarrow> string \<Rightarrow> pyval option" where
  "own_attr ob n = (case pdict ob of None \<Rightarrow> None | Some d \<Rightarrow> d n)"

fun lookup_attr :: "(ref \<Rightarrow> pyobj) \<Rightarrow> string \<Rightarrow> ref list \<Rightarrow> pyval option" where
  "lookup_attr h n [] = None"
| "lookup_attr h n (r # rs) =
     (case own_attr (h r) n of Some v \<Rightarrow> Some v | None \<Rightarrow> lookup_attr h n rs)"

definition resolve :: "state \<Rightarrow> ref \<Rightarrow> string \<Rightarrow> pyval option" where
  "resolve s obj n = lookup_attr (objs s) n (obj # fallback (objs s obj))"

definition hasattr :: "ref \<Rightarrow> string \<Rightarrow> state \<Rightarrow> bool" where
  "hasattr obj n s = (resolve s obj n \<noteq> None)"

definition getattr :: "ref \<Rightarrow> string \<Rightarrow> state \<Rightarrow> ('e, pyval) outcome" where
  "getattr obj n s =
     (case resolve s obj n of None \<Rightarrow> (Inl AttributeError, s) | Some v \<Rightarrow> (Inr v, s))"

definition setattr :: "ref \<Rightarrow> string \<Rightarrow> pyval \<Rightarrow> state \<Rightarrow> ('e, unit) outcome" where
  "setattr obj n v s =
     (if readonly (objs s obj) then (Inl TypeError, s)
      else case pdict (objs s obj) of
        None \<Rightarrow> (Inl AttributeError, s)
      | Some d \<Rightarrow>
          (Inr (), s\<lparr>objs := (objs s)(obj := (objs s obj)\<lparr>pdict := Some (d(n \<mapsto> v))\<rparr>)\<rparr>))"


section \<open>ObjectLock\<close>

text \<open>
  \<^verbatim>\<open>
  @classmethod
  def _get_lock(cls, obj):
      with cls._lock:
          lock_name = cls.__LOCK_NAME
          if not hasattr(obj, lock_name):
              setattr(obj, lock_name, RLock())
          return getattr(obj, lock_name)
  \<close>
  The argument \<^verbatim>\<open>RLock()\<close> is evaluated before \<^verbatim>\<open>setattr\<close> runs.
\<close>

definition get_lock :: "ref \<Rightarrow> state \<Rightarrow> ('e, pyval) outcome" where
  "get_lock obj =
     with_rlock ClassLock (\<lambda>s.
       if \<not> hasattr obj LOCK_NAME s then
         (case RLock s of (l, s1) \<Rightarrow>
            (case setattr obj LOCK_NAME (Lock l) s1 of
               (Inl e, s2) \<Rightarrow> (Inl e, s2)
             | (Inr u, s2) \<Rightarrow> getattr obj LOCK_NAME s2))
       else getattr obj LOCK_NAME s)"


text \<open>
  \<^verbatim>\<open>
  def __init__(self, obj):
      self.lock = ObjectLock._get_lock(obj)
  def __enter__(self):
      self.lock.acquire()
  def __exit__(self, exc_type, exc_value, traceback):
      self.lock.release()
  \<close>
  \<^verbatim>\<open>__exit__\<close> returns \<^verbatim>\<open>None\<close>, so it never suppresses the exception of the block.
  On a value that is not a lock, \<^verbatim>\<open>self.lock.acquire\<close> is a missing attribute.
\<close>

record ObjectLock =
  lock :: pyval

definition ObjectLock_init :: "ref \<Rightarrow> state \<Rightarrow> ('e, ObjectLock) outcome" where
  "ObjectLock_init obj s =
     (case get_lock obj s of
        (Inl e, s1) \<Rightarrow> (Inl e, s1)
      | (Inr v, s1) \<Rightarrow> (Inr \<lparr>lock = v\<rparr>, s1))"

definition ObjectLock_enter :: "ObjectLock \<Rightarrow> state \<Rightarrow> ('e, unit) outcome" where
  "ObjectLock_enter self s =
     (case lock self of
        Lock l \<Rightarrow> (Inr (), acquire l s)
      | Obj r \<Rightarrow> (Inl AttributeError, s))"

definition ObjectLock_exit :: "ObjectLock \<Rightarrow> state \<Rightarrow> ('e, unit) outcome" where
  "ObjectLock_exit self s =
     (case lock self of
        Lock l \<Rightarrow> release l s
      | Obj r \<Rightarrow> (Inl AttributeError, s))"

text \<open>
  \<^verbatim>\<open>with ObjectLock(obj): body\<close>: the constructor runs first and its exception leaves the
  statement before anything is acquired; an exception of \<^verbatim>\<open>__enter__\<close> leaves it before the
  body; then the body runs, and \<^verbatim>\<open>__exit__\<close> on every exit path of the body. What the body
  returned or raised is the outcome of the statement, unless \<^verbatim>\<open>__exit__\<close> raises.
\<close>

definition with_ObjectLock ::
  "ref \<Rightarrow> (state \<Rightarrow> ('e, 'a) outcome) \<Rightarrow> state \<Rightarrow> ('e, 'a) outcome" where
  "with_ObjectLock obj body s =
     (case ObjectLock_init obj s of
        (Inl e, s1) \<Rightarrow> (Inl e, s1)
      | (Inr mgr, s1) \<Rightarrow>
          (case ObjectLock_enter mgr s1 of
             (Inl e, s2) \<Rightarrow> (Inl e, s2)
           | (Inr u, s2) \<Rightarrow>
               (case body s2 of (out, s3) \<Rightarrow>
                  (case ObjectLock_exit mgr s3 of
                     (Inl e, s4) \<Rightarrow> (Inl e, s4)
                   | (Inr u, s4) \<Rightarrow> (out, s4)))))"

section \<open>The decorators\<close>

text \<open>
  A callable object has an identity (the lock key) and a behaviour. The behaviour of the
  callables is a parameter \<open>impl\<close>: \<open>impl f args kwargs\<close> is the call
  \<^verbatim>\<open>f(*args, **kwargs)\<close>, a computation on the state that returns a value or raises.
  A wrapper \<^verbatim>\<open>with_synchronization\<close> is represented by its behaviour; the name, docstring
  and attribute dictionary that \<^verbatim>\<open>functools.wraps\<close> copies onto it are not modelled.
\<close>

type_synonym kwargs = "string \<rightharpoonup> ref"

type_synonym ('e, 'v) pyfun = "ref list \<Rightarrow> kwargs \<Rightarrow> state \<Rightarrow> ('e, 'v) outcome"

definition synchronized_object :: "ref \<Rightarrow> state \<Rightarrow> ('e, ObjectLock) outcome" where
  "synchronized_object obj s = ObjectLock_init obj s"

text \<open>
  The parameters of \<^verbatim>\<open>def with_synchronization(self, *args, **kwargs)\<close>: the receiver is
  the first positional argument, or the keyword argument \<^verbatim>\<open>self\<close> when there is no
  positional one. A call with neither, or with both, is a \<^verbatim>\<open>TypeError\<close> of the call itself:
  the body of the wrapper does not start.
\<close>

definition bind_self :: "ref list \<Rightarrow> kwargs \<Rightarrow> (ref \<times> ref list \<times> kwargs) option" where
  "bind_self args kw =
     (case args of
        a # rest \<Rightarrow> (if kw ''self'' = None then Some (a, rest, kw) else None)
      | [] \<Rightarrow>
          (case kw ''self'' of
             None \<Rightarrow> None
           | Some a \<Rightarrow> Some (a, [], kw(''self'' := None))))"

text \<open>
  \<^verbatim>\<open>
  def with_synchronization(self, *args, **kwargs):
      with ObjectLock(self):
          return func(self, *args, **kwargs)
  \<close>
\<close>

definition synchronized_method :: "(ref \<Rightarrow> ('e, 'v) pyfun) \<Rightarrow> ref \<Rightarrow> ('e, 'v) pyfun" where
  "synchronized_method impl func =
     (\<lambda>args kwargs s.
        case bind_self args kwargs of
          None \<Rightarrow> (Inl TypeError, s)
        | Some (self, rest, kw) \<Rightarrow> with_ObjectLock self (impl func (self # rest) kw) s)"

text \<open>
  \<^verbatim>\<open>
  def with_synchronization(*args, **kwargs):
      with ObjectLock(func):
          return func(*args, **kwargs)
  \<close>
\<close>

definition synchronized_func :: "(ref \<Rightarrow> ('e, 'v) pyfun) \<Rightarrow> ref \<Rightarrow> ('e, 'v) pyfun" where
  "synchronized_func impl func =
     (\<lambda>args kwargs. with_ObjectLock func (impl func args kwargs))"

text \<open>
  \<^verbatim>\<open>
  def synchronized(obj):
      if type(obj) is types.FunctionType:
          return synchronized_func(obj)
      if type(obj) is types.MethodType:
          return synchronized_method(obj)
      if type(obj) is types.InstanceType:
          return synchronized_object(obj)
  \<close>
  Falling off the end of the function returns \<^verbatim>\<open>None\<close>.
\<close>

datatype ('e, 'v) wrapped =
    FuncWrapper "('e, 'v) pyfun"
  | MethodWrapper "('e, 'v) pyfun"
  | Handle ObjectLock
  | PyNone

definition synchronized ::
  "(ref \<Rightarrow> ('e, 'v) pyfun) \<Rightarrow> ref \<Rightarrow> state \<Rightarrow> ('e, ('e, 'v) wrapped) outcome" where
  "synchronized impl obj s =
     (if ptype (objs s obj) = FunctionType then (Inr (FuncWrapper (synchronized_func impl obj)), s)
      else if ptype (objs s obj) = MethodType then
        (Inr (MethodWrapper (synchronized_method impl obj)), s)
      else if ptype (objs s obj) = InstanceType then
        (case synchronized_object obj s of
           (Inl e, s1) \<Rightarrow> (Inl e, s1)
         | (Inr h, s1) \<Rightarrow> (Inr (Handle h), s1))
      else (Inr PyNone, s))"

section \<open>A small program\<close>

text \<open>
  The objects of the module's own demonstration: the class \<^verbatim>\<open>Foo\<close> (object 0), two of its
  instances (1 and 4), the function \<^verbatim>\<open>foo\<close> (2) and the bound method \<^verbatim>\<open>f.foo\<close> (3), whose
  attribute lookup falls through to the function. Beside them: the classes \<^verbatim>\<open>B1\<close> (5) and
  \<^verbatim>\<open>B2\<close> (6), the class \<^verbatim>\<open>A(B1, B2)\<close> (7) and an instance \<^verbatim>\<open>x\<close> of \<^verbatim>\<open>A\<close> (8); the built-in
  type \<^verbatim>\<open>int\<close> (9); the function \<^verbatim>\<open>drop\<close> (10); and an instance \<^verbatim>\<open>g\<close> of \<^verbatim>\<open>Foo\<close> (11) to
  which the program has assigned \<^verbatim>\<open>g.__ObjectLock__ = x\<close>. Every other identity is an
  object without an attribute dictionary, such as an integer.
\<close>

definition other_obj :: pyobj where
  "other_obj = \<lparr>ptype = OtherType, pdict = None, readonly = False, fallback = []\<rparr>"

definition class_obj :: "ref list \<Rightarrow> pyobj" where
  "class_obj bases =
     \<lparr>ptype = OtherType, pdict = Some Map.empty, readonly = False, fallback = bases\<rparr>"

definition builtin_type_obj :: pyobj where
  "builtin_type_obj =
     \<lparr>ptype = OtherType, pdict = Some Map.empty, readonly = True, fallback = []\<rparr>"

definition instance_obj :: "ref list \<Rightarrow> pyobj" where
  "instance_obj classes =
     \<lparr>ptype = InstanceType, pdict = Some Map.empty, readonly = False, fallback = classes\<rparr>"

definition function_obj :: pyobj where
  "function_obj =
     \<lparr>ptype = FunctionType, pdict = Some Map.empty, readonly = False, fallback = []\<rparr>"

definition method_obj :: "ref \<Rightarrow> pyobj" where
  "method_obj f = \<lparr>ptype = MethodType, pdict = None, readonly = False, fallback = [f]\<rparr>"

definition demo :: state where
  "demo = \<lparr>objs = (\<lambda>r. if r = 0 then class_obj []
                        else if r = 1 \<or> r = 4 then instance_obj [0]
                        else if r = 2 \<or> r = 10 then function_obj
                        else if r = 3 then method_obj 2
                        else if r = 5 \<or> r = 6 then class_obj []
                        else if r = 7 then class_obj [5, 6]
                        else if r = 8 then instance_obj [7, 5, 6]
                        else if r = 9 then builtin_type_obj
                        else if r = 11 then (instance_obj [0])\<lparr>pdict := Some [LOCK_NAME \<mapsto> Obj 8]\<rparr>
                        else other_obj),
            created = 0, holds = (\<lambda>l. 0)\<rparr>"

text \<open>
  The state after a new lock \<open>l\<close> has been attached to an object of the small program
  whose dictionary was empty.
\<close>

definition attach :: "ref \<Rightarrow> rlock \<Rightarrow> state \<Rightarrow> state" where
  "attach obj l s =
     s\<lparr>objs := (objs s)(obj := (objs s obj)\<lparr>pdict := Some [LOCK_NAME \<mapsto> Lock l]\<rparr>),
       created := Suc (created s), holds := (holds s)(l := 0)\<rparr>"

text \<open>The state after \<^verbatim>\<open>RLock()\<close> has made a lock that could not be attached.\<close>

definition wasted :: "state \<Rightarrow> state" where
  "wasted s = s\<lparr>created := Suc (created s), holds := (holds s)(NewLock (created s) := 0)\<rparr>"

text \<open>
  The behaviour of the callables of the small program. \<^verbatim>\<open>foo\<close> takes its receiver and
  returns the number of further arguments; called without a receiver it raises, as
  Python does for a missing positional argument.
  \<^verbatim>\<open>drop\<close> releases the lock of its receiver and raises:
  \<^verbatim>\<open>
  def drop(self):
      self.__ObjectLock__.release()
      raise ValueError
  \<close>
  No other object is callable.
\<close>

definition demo_impl :: "ref \<Rightarrow> (string, nat) pyfun" where
  "demo_impl f args kw s =
     (if f = 2 then
        (case args of
           [] \<Rightarrow> (Inl (Raised ''TypeError''), s)
         | self # rest \<Rightarrow> (Inr (length rest), s))
      else if f = 10 then
        (case args of
           [] \<Rightarrow> (Inl (Raised ''TypeError''), s)
         | self # rest \<Rightarrow>
             (case getattr self LOCK_NAME s of
                (Inl e, s1) \<Rightarrow> (Inl e, s1)
              | (Inr (Obj r), s1) \<Rightarrow> (Inl AttributeError, s1)
              | (Inr (Lock l), s1) \<Rightarrow>
                  (case release l s1 of
                     (Inl e, s2) \<Rightarrow> (Inl e, s2)
                   | (Inr u, s2) \<Rightarrow> (Inl (Raised ''ValueError''), s2))))
      else (Inl (Raised ''TypeError''), s))"

section \<open>Threads racing for the lock of one target\<close>

text \<open>
  Several threads call \<^verbatim>\<open>_get_lock(obj)\<close> at once. Each thread is at a program point of
  the function; a step of a thread runs one operation of the function on the shared
  state, and any interleaving of the steps is a run.
  \<^verbatim>\<open>with cls._lock\<close> takes the class lock on entry, which goes through only while no other
  thread owns the lock, and gives it back on every exit path; a thread that cannot take
  it waits, its step changing nothing.
\<close>

datatype pc =
    Start
  | Entered
  | Creating
  | Attaching rlock
  | Reading
  | Leaving "unit exn + pyval"
  | Done "unit exn + pyval"

record config =
  shared :: state
  locks :: owners
  pcs :: "thread \<Rightarrow> pc"

definition step :: "ref \<Rightarrow> thread \<Rightarrow> config \<Rightarrow> config" where
  "step obj i c =
     (case pcs c i of
        Start \<Rightarrow>
          (case acquire_by i ClassLock (locks c) of
             None \<Rightarrow> c
           | Some ow \<Rightarrow> c\<lparr>locks := ow, pcs := (pcs c)(i := Entered)\<rparr>)
      | Entered \<Rightarrow>
          (if \<not> hasattr obj LOCK_NAME (shared c) then c\<lparr>pcs := (pcs c)(i := Creating)\<rparr>
           else c\<lparr>pcs := (pcs c)(i := Reading)\<rparr>)
      | Creating \<Rightarrow>
          (case RLock (shared c) of
             (l, s1) \<Rightarrow> c\<lparr>shared := s1, pcs := (pcs c)(i := Attaching l)\<rparr>)
      | Attaching l \<Rightarrow>
          (case setattr obj LOCK_NAME (Lock l) (shared c) of
             (Inl e, s1) \<Rightarrow> c\<lparr>shared := s1, pcs := (pcs c)(i := Leaving (Inl e))\<rparr>
           | (Inr u, s1) \<Rightarrow> c\<lparr>shared := s1, pcs := (pcs c)(i := Reading)\<rparr>)
      | Reading \<Rightarrow>
          (case getattr obj LOCK_NAME (shared c) of
             (r, s1) \<Rightarrow> c\<lparr>shared := s1, pcs := (pcs c)(i := Leaving r)\<rparr>)
      | Leaving r \<Rightarrow>
          (case release_by i ClassLock (locks c) of
             None \<Rightarrow> c\<lparr>pcs := (pcs c)(i := Done (Inl AssertionError))\<rparr>
           | Some ow \<Rightarrow> c\<lparr>locks := ow, pcs := (pcs c)(i := Done r)\<rparr>)
      | Done r \<Rightarrow> c)"

fun run :: "ref \<Rightarrow> thread list \<Rightarrow> config \<Rightarrow> config" where
  "run obj [] c = c"
| "run obj (i # sched) c = run obj sched (step obj i c)"

text \<open>All threads about to call, no lock owned.\<close>

definition init :: "state \<Rightarrow> config" where
  "init s = \<lparr>shared = s, locks = Map.empty, pcs = (\<lambda>i. Start)\<rparr>"








section \<open>Properties of the lock lookup\<close>

text \<open>
  What \<open>get_lock\<close> computes, with the class lock acquired and released around it: the
  value that attribute lookup finds, and otherwise a new lock, attached when the object
  accepts the assignment.
\<close>

lemma get_lock_char:
  "get_lock obj s =
     (case resolve s obj LOCK_NAME of
        Some v \<Rightarrow> (Inr v, s)
      | None \<Rightarrow>
          (if readonly (objs s obj) then (Inl TypeError, wasted s)
           else case pdict (objs s obj) of
             None \<Rightarrow> (Inl AttributeError, wasted s)
           | Some d \<Rightarrow>
               (Inr (Lock (NewLock (created s))),
                (wasted s)\<lparr>objs := (objs s)(obj := (objs s obj)
                   \<lparr>pdict := Some (d(LOCK_NAME \<mapsto> Lock (NewLock (created s))))\<rparr>)\<rparr>)))"
  by (auto simp: get_lock_def with_rlock_def acquire_def release_def hasattr_def getattr_def
        setattr_def RLock_def resolve_def own_attr_def wasted_def Let_def fun_upd_twist
        split: option.splits prod.splits sum.splits)

lemma objs_wasted [simp]: "objs (wasted s) = objs s"
  by (simp add: wasted_def)

lemma created_wasted [simp]: "created (wasted s) = Suc (created s)"
  by (simp add: wasted_def)

lemma resolve_own:
  "own_attr (objs s t) n = Some v \<Longrightarrow> resolve s t n = Some v"
  by (simp add: resolve_def)


lemma get_lock_seen:
  "resolve s t LOCK_NAME = Some v \<Longrightarrow> get_lock t s = (Inr v, s)"
  by (simp add: get_lock_char)

lemma get_lock_of_own:
  "own_attr (objs s t) LOCK_NAME = Some v \<Longrightarrow> get_lock t s = (Inr v, s)"
  by (simp add: get_lock_seen resolve_own)

lemma get_lock_other:
  "u \<noteq> t \<Longrightarrow> objs (snd (get_lock t s)) u = objs s u"
  by (simp add: get_lock_char split: option.splits)


lemma get_lock_own_kept:
  assumes "own_attr (objs s u) LOCK_NAME = Some v"
  shows "own_attr (objs (snd (get_lock t s)) u) LOCK_NAME = Some v"
proof (cases "u = t")
  case True
  then show ?thesis using assms by (simp add: get_lock_of_own)
next
  case False
  then show ?thesis using assms by (simp add: get_lock_other)
qed








lemmas demo_defs = demo_def other_obj_def class_obj_def builtin_type_obj_def instance_obj_def
  function_obj_def method_obj_def attach_def wasted_def LOCK_NAME_def resolve_def own_attr_def
  hasattr_def




section \<open>The wrappers and the dispatcher\<close>

text \<open>
  The statement \<^verbatim>\<open>with ObjectLock(obj): body\<close>, case by case: the lookup raises; the
  attribute holds something that is not a lock, and \<^verbatim>\<open>__enter__\<close> raises; or the lock is
  acquired and the body runs, after which \<^verbatim>\<open>__exit__\<close> releases the lock, or raises when
  the body has left no hold to release.
\<close>

lemma with_ObjectLock_char:
  fixes body :: "state \<Rightarrow> ('e, 'a) outcome"
  shows "with_ObjectLock obj body s =
     (case get_lock obj s of
        (Inl e, s1) \<Rightarrow> (Inl e, s1)
      | (Inr (Obj x), s1) \<Rightarrow> (Inl AttributeError, s1)
      | (Inr (Lock l), s1) \<Rightarrow>
          (case body (acquire l s1) of (out, s3) \<Rightarrow>
             (if holds s3 l = 0 then (Inl AssertionError, s3)
              else (out, s3\<lparr>holds := (holds s3)(l := holds s3 l - 1)\<rparr>))))"
  by (simp add: with_ObjectLock_def ObjectLock_init_def ObjectLock_enter_def
      ObjectLock_exit_def release_def split: prod.splits sum.splits pyval.splits)

lemma with_ObjectLock_resolved:
  fixes body :: "state \<Rightarrow> ('e, 'a) outcome"
  assumes "get_lock obj s = (Inr (Lock l) :: 'e exn + pyval, s1)"
  shows "with_ObjectLock obj body s =
           (case body (acquire l s1) of (out, s3) \<Rightarrow>
              (case release l s3 of (Inl e, s4) \<Rightarrow> (Inl e, s4) | (Inr u, s4) \<Rightarrow> (out, s4)))"
  using assms
  by (simp add: with_ObjectLock_def ObjectLock_init_def ObjectLock_enter_def ObjectLock_exit_def)

lemma with_ObjectLock_unresolved:
  fixes body :: "state \<Rightarrow> ('e, 'a) outcome"
  assumes "get_lock obj s = (Inl e :: 'e exn + pyval, s1)"
  shows "with_ObjectLock obj body s = (Inl e, s1)"
  using assms by (simp add: with_ObjectLock_char)

lemma with_ObjectLock_not_a_lock:
  fixes body :: "state \<Rightarrow> ('e, 'a) outcome"
  assumes "get_lock obj s = (Inr (Obj x) :: 'e exn + pyval, s1)"
  shows "with_ObjectLock obj body s = (Inl AttributeError, s1)"
  using assms by (simp add: with_ObjectLock_char)


lemma with_ObjectLock_dropped:
  fixes body :: "state \<Rightarrow> ('e, 'a) outcome"
  assumes "get_lock obj s = (Inr (Lock l) :: 'e exn + pyval, s1)"
    and "body (acquire l s1) = (out, s3)" and "holds s3 l = 0"
  shows "with_ObjectLock obj body s = (Inl AssertionError, s3)"
  using assms by (simp add: with_ObjectLock_char)

text \<open>
  C3. \<open>synchronized\<close> dispatches on the type of its target: a function goes to
  \<open>synchronized_func\<close>, a bound method to \<open>synchronized_method\<close>, an instance to
  \<open>synchronized_object\<close>.
\<close>

theorem synchronized_dispatch:
  "(ptype (objs s obj) = FunctionType \<longrightarrow>
      synchronized impl obj s = (Inr (FuncWrapper (synchronized_func impl obj)), s)) \<and>
   (ptype (objs s obj) = MethodType \<longrightarrow>
      synchronized impl obj s = (Inr (MethodWrapper (synchronized_method impl obj)), s)) \<and>
   (ptype (objs s obj) = InstanceType \<longrightarrow>
      synchronized impl obj s =
        (case synchronized_object obj s of
           (Inl e, s1) \<Rightarrow> (Inl e, s1)
         | (Inr h, s1) \<Rightarrow> (Inr (Handle h), s1)))"
  by (simp add: synchronized_def)

text \<open>Facts about the small program, for the concrete instances below.\<close>

lemma demo_get_lock_2:
  "get_lock 2 demo = (Inr (Lock (NewLock 0)) :: 'e exn + pyval, attach 2 (NewLock 0) demo)"
  by (simp add: get_lock_char demo_defs)

lemma demo_get_lock_1:
  "get_lock 1 demo = (Inr (Lock (NewLock 0)) :: 'e exn + pyval, attach 1 (NewLock 0) demo)"
  by (simp add: get_lock_char demo_defs)

lemma holds_attach: "holds (attach t l s) l = 0"
  by (simp add: attach_def)

lemma holds_acquire_attach: "holds (acquire l (attach t l s)) l = Suc 0"
  by (simp add: acquire_def attach_def)

lemma attach_released:
  "(acquire l (attach t l s))\<lparr>holds := (holds (acquire l (attach t l s)))(l := 0)\<rparr>
     = attach t l s"
  by (simp add: acquire_def attach_def)

lemmas attach_idle = holds_attach holds_acquire_attach attach_released

theorem synchronized_dispatch_witness:
  "ptype (objs demo 2) = FunctionType \<and>
   synchronized demo_impl 2 demo = (Inr (FuncWrapper (synchronized_func demo_impl 2)), demo) \<and>
   ptype (objs demo 3) = MethodType \<and>
   synchronized demo_impl 3 demo = (Inr (MethodWrapper (synchronized_method demo_impl 3)), demo) \<and>
   ptype (objs demo 1) = InstanceType \<and>
   synchronized demo_impl 1 demo
     = (Inr (Handle \<lparr>lock = Lock (NewLock 0)\<rparr>), attach 1 (NewLock 0) demo)"
proof -
  have f: "ptype (objs demo 2) = FunctionType" and m: "ptype (objs demo 3) = MethodType"
    and i: "ptype (objs demo 1) = InstanceType"
    by (simp_all add: demo_defs)
  have o: "synchronized_object 1 demo
             = (Inr \<lparr>lock = Lock (NewLock 0)\<rparr> :: string exn + ObjectLock,
                attach 1 (NewLock 0) demo)"
    by (simp add: synchronized_object_def ObjectLock_init_def demo_get_lock_1 del: One_nat_def)
  show ?thesis
    using synchronized_dispatch [of demo 2 demo_impl] synchronized_dispatch [of demo 3 demo_impl]
      synchronized_dispatch [of demo 1 demo_impl] f m i o
    by simp
qed

text \<open>
  C5. For a target that is neither a function, a bound method nor an instance,
  \<open>synchronized\<close> returns \<^verbatim>\<open>None\<close>: nothing is wrapped, nothing is raised and the state
  is left as it was.
\<close>

theorem synchronized_unrecognized:
  assumes "ptype (objs s obj) \<noteq> FunctionType" and "ptype (objs s obj) \<noteq> MethodType"
    and "ptype (objs s obj) \<noteq> InstanceType"
  shows "synchronized impl obj s = (Inr PyNone, s)"
  using assms by (simp add: synchronized_def)

theorem synchronized_unrecognized_witness:
  "ptype (objs demo 0) \<noteq> FunctionType \<and> ptype (objs demo 0) \<noteq> MethodType \<and>
   ptype (objs demo 0) \<noteq> InstanceType \<and> synchronized demo_impl 0 demo = (Inr PyNone, demo)"
proof -
  have a: "ptype (objs demo 0) \<noteq> FunctionType" and b: "ptype (objs demo 0) \<noteq> MethodType"
    and c: "ptype (objs demo 0) \<noteq> InstanceType"
    by (simp_all add: demo_defs)
  show ?thesis
    using synchronized_unrecognized [OF a b c, of demo_impl] a b c by simp
qed

text \<open>
  C10. A \<^verbatim>\<open>def\<close> decorated inside a class body is still a plain function when the
  decorator runs, so \<open>synchronized\<close> wraps it with \<open>synchronized_func\<close>. The lock of every
  call of the wrapper is then the lock of the function \<open>f\<close>: the receiver \<open>self\<close> is only
  the first argument passed on, and does not enter the lookup.
\<close>

theorem class_body_decorator_keys_on_function:
  fixes impl :: "ref \<Rightarrow> ('e, 'v) pyfun"
  assumes "ptype (objs s f) = FunctionType"
  shows "synchronized impl f s = (Inr (FuncWrapper (synchronized_func impl f)), s) \<and>
         (get_lock f s' = (Inr (Lock l) :: 'e exn + pyval, s1) \<longrightarrow>
            synchronized_func impl f (self # args) kw s'
              = (case impl f (self # args) kw (acquire l s1) of (out, s3) \<Rightarrow>
                   (case release l s3 of
                      (Inl e, s4) \<Rightarrow> (Inl e, s4)
                    | (Inr u, s4) \<Rightarrow> (out, s4))))"
  using assms
  by (simp add: synchronized_def synchronized_func_def with_ObjectLock_resolved)

theorem class_body_decorator_keys_on_function_witness:
  "ptype (objs demo 2) = FunctionType \<and>
   synchronized demo_impl 2 demo = (Inr (FuncWrapper (synchronized_func demo_impl 2)), demo) \<and>
   synchronized_func demo_impl 2 [1] Map.empty demo = (Inr 0, attach 2 (NewLock 0) demo) \<and>
   synchronized_func demo_impl 2 [4] Map.empty (attach 2 (NewLock 0) demo)
     = (Inr 0, attach 2 (NewLock 0) demo) \<and>
   own_attr (objs (attach 2 (NewLock 0) demo) 1) LOCK_NAME = None \<and>
   own_attr (objs (attach 2 (NewLock 0) demo) 4) LOCK_NAME = None"
proof -
  have t: "ptype (objs demo 2) = FunctionType"
    by (simp add: demo_defs)
  have g: "get_lock 2 (attach 2 (NewLock 0) demo)
             = (Inr (Lock (NewLock 0)) :: string exn + pyval, attach 2 (NewLock 0) demo)"
    by (simp add: get_lock_char demo_defs)
  have b: "demo_impl 2 [r] Map.empty (acquire (NewLock 0) (attach 2 (NewLock 0) demo))
             = (Inr 0, acquire (NewLock 0) (attach 2 (NewLock 0) demo))" for r
    by (simp add: demo_impl_def)
  have e: "release (NewLock 0) (acquire (NewLock 0) (attach 2 (NewLock 0) demo))
             = (Inr () :: string exn + unit, attach 2 (NewLock 0) demo)"
    by (simp add: release_def acquire_def attach_def)
  have n: "own_attr (objs (attach 2 (NewLock 0) demo) 1) LOCK_NAME = None"
    "own_attr (objs (attach 2 (NewLock 0) demo) 4) LOCK_NAME = None"
    by (simp_all add: demo_defs)
  show ?thesis
    using class_body_decorator_keys_on_function [OF t, where impl = demo_impl and self = 1
        and args = "[]" and kw = Map.empty and s' = demo and l = "NewLock 0"
        and ?s1.0 = "attach 2 (NewLock 0) demo"]
      class_body_decorator_keys_on_function [OF t, where impl = demo_impl and self = 4
        and args = "[]" and kw = Map.empty and s' = "attach 2 (NewLock 0) demo"
        and l = "NewLock 0" and ?s1.0 = "attach 2 (NewLock 0) demo"]
      demo_get_lock_2 [where ?'e = string] g t b e n
    by (simp del: One_nat_def)
qed

lemma with_ObjectLock_own_kept:
  fixes body :: "state \<Rightarrow> ('e, 'a) outcome"
  assumes own: "own_attr (objs s u) LOCK_NAME = Some v"
    and body: "\<And>s'. own_attr (objs s' u) LOCK_NAME = Some v \<Longrightarrow>
                 own_attr (objs (snd (body s')) u) LOCK_NAME = Some v"
  shows "own_attr (objs (snd (with_ObjectLock t body s)) u) LOCK_NAME = Some v"
proof (cases "get_lock t s :: ('e, pyval) outcome")
  case (Pair r s1)
  have k: "own_attr (objs s1 u) LOCK_NAME = Some v"
    using get_lock_own_kept [OF own, of t, where ?'a = 'e] Pair by simp
  show ?thesis
  proof (cases r)
    case (Inl e)
    then show ?thesis using Pair k by (simp add: with_ObjectLock_unresolved)
  next
    case (Inr w)
    show ?thesis
    proof (cases w)
      case (Obj x)
      then show ?thesis using Pair Inr k by (simp add: with_ObjectLock_not_a_lock)
    next
      case (Lock m)
      have a: "own_attr (objs (acquire m s1) u) LOCK_NAME = Some v"
        using k by (simp add: acquire_def)
      obtain out s3 where b: "body (acquire m s1) = (out, s3)"
        by (cases "body (acquire m s1)")
      have c: "own_attr (objs s3 u) LOCK_NAME = Some v"
        using body [OF a] b by simp
      show ?thesis
        using Pair Inr Lock b c by (simp add: with_ObjectLock_char)
    qed
  qed
qed

text \<open>
  C7. A lock attached to a target is never replaced. If \<open>u\<close> carries the value \<open>v\<close> as its
  own attribute, it still does after a lock lookup for any target \<open>t\<close>, after the
  construction of an \<open>ObjectLock\<close>, after \<open>synchronized\<close>, and after a call of either wrapper
  (the wrapped computation itself leaving the attribute alone); and a lookup for \<open>u\<close>
  returns \<open>v\<close> without creating anything, so \<open>u\<close> never has a second lock.
\<close>

theorem lock_never_replaced:
  fixes impl :: "ref \<Rightarrow> ('e, 'v) pyfun"
  assumes "own_attr (objs s u) LOCK_NAME = Some v"
    and "\<forall>args kw s'. own_attr (objs s' u) LOCK_NAME = Some v \<longrightarrow>
           own_attr (objs (snd (impl f args kw s')) u) LOCK_NAME = Some v"
  shows "own_attr (objs (snd (get_lock t s :: ('e, pyval) outcome)) u) LOCK_NAME = Some v \<and>
         own_attr (objs (snd (ObjectLock_init t s :: ('e, ObjectLock) outcome)) u) LOCK_NAME
           = Some v \<and>
         own_attr (objs (snd (synchronized impl t s)) u) LOCK_NAME = Some v \<and>
         own_attr (objs (snd (synchronized_func impl f args kw s)) u) LOCK_NAME = Some v \<and>
         own_attr (objs (snd (synchronized_method impl f args kw s)) u) LOCK_NAME = Some v \<and>
         get_lock u s = (Inr v :: 'e exn + pyval, s)"
proof -
  have g: "own_attr (objs (snd (get_lock t s :: ('e, pyval) outcome)) u) LOCK_NAME = Some v"
    using assms(1) by (rule get_lock_own_kept)
  have i: "own_attr (objs (snd (ObjectLock_init t s :: ('e, ObjectLock) outcome)) u) LOCK_NAME
             = Some v"
    using g by (auto simp: ObjectLock_init_def split: prod.splits sum.splits)
  have d: "own_attr (objs (snd (synchronized impl t s)) u) LOCK_NAME = Some v"
    using i assms(1)
    by (auto simp: synchronized_def synchronized_object_def split: prod.splits sum.splits)
  have w: "own_attr (objs (snd (with_ObjectLock k (impl f as kw') s)) u) LOCK_NAME = Some v"
    for k as kw'
    using assms by (intro with_ObjectLock_own_kept) auto
  have m: "own_attr (objs (snd (synchronized_method impl f args kw s)) u) LOCK_NAME = Some v"
    using w assms(1) by (simp add: synchronized_method_def split: option.splits prod.splits)
  show ?thesis
    using g i d w m assms(1)
    by (simp add: synchronized_func_def get_lock_of_own)
qed

theorem lock_never_replaced_witness:
  "own_attr (objs (attach 1 (NewLock 0) demo) 1) LOCK_NAME = Some (Lock (NewLock 0)) \<and>
   own_attr (objs (snd (get_lock 4 (attach 1 (NewLock 0) demo) :: (string, pyval) outcome)) 1)
      LOCK_NAME = Some (Lock (NewLock 0)) \<and>
   own_attr (objs (snd (synchronized_method demo_impl 2 [1] Map.empty
      (attach 1 (NewLock 0) demo))) 1) LOCK_NAME = Some (Lock (NewLock 0)) \<and>
   get_lock 1 (attach 1 (NewLock 0) demo)
     = (Inr (Lock (NewLock 0)) :: string exn + pyval, attach 1 (NewLock 0) demo)"
proof -
  have o: "own_attr (objs (attach 1 (NewLock 0) demo) 1) LOCK_NAME = Some (Lock (NewLock 0))"
    by (simp add: demo_defs)
  have b: "\<forall>args kw s'. own_attr (objs s' 1) LOCK_NAME = Some (Lock (NewLock 0)) \<longrightarrow>
             own_attr (objs (snd (demo_impl 2 args kw s')) 1) LOCK_NAME = Some (Lock (NewLock 0))"
    by (simp add: demo_impl_def split: list.splits)
  show ?thesis
    using lock_never_replaced [where impl = demo_impl and f = 2 and t = 4
        and args = "[1]" and kw = Map.empty, OF o b] o
    by blast
qed

section \<open>What the wrappers return\<close>




text \<open>
  C2, as stated, fails: \<^verbatim>\<open>drop\<close>, run under the lock of its receiver, releases that lock
  itself and raises \<^verbatim>\<open>ValueError\<close>. \<^verbatim>\<open>__exit__\<close> then has no hold to release: its
  \<^verbatim>\<open>release\<close> raises \<^verbatim>\<open>AssertionError\<close>, and that is what the caller gets.
\<close>

theorem exit_error_replaces_computation_error:
  "demo_impl 10 [1] Map.empty (acquire (NewLock 0) (attach 1 (NewLock 0) demo))
     = (Inl (Raised ''ValueError''), attach 1 (NewLock 0) demo) \<and>
   with_ObjectLock 1 (demo_impl 10 [1] Map.empty) demo
     = (Inl AssertionError, attach 1 (NewLock 0) demo)"
proof -
  have b: "demo_impl 10 [1] Map.empty (acquire (NewLock 0) (attach 1 (NewLock 0) demo))
     = (Inl (Raised ''ValueError''), attach 1 (NewLock 0) demo)"
    by (simp add: demo_impl_def getattr_def release_def acquire_def demo_defs)
  show ?thesis
    using with_ObjectLock_dropped [where body = "demo_impl 10 [1] Map.empty",
        OF demo_get_lock_1 b] b
    by (simp add: holds_attach)
qed

text \<open>
  C2, amended. When the computation under \<^verbatim>\<open>with ObjectLock(key)\<close> raises while a hold on
  the lock is still in place, the statement raises the same exception and \<^verbatim>\<open>__exit__\<close> has
  given one hold back, on this path as on the normal one; for a computation that left
  the hold count as it found it, the lock is back at the count it had before the
  statement acquired it. When the computation has given the hold up itself,
  \<^verbatim>\<open>__exit__\<close> raises \<^verbatim>\<open>AssertionError\<close> in place of the exception. The wrappers of
  \<open>synchronized_func\<close> and \<open>synchronized_method\<close> are such statements, so the same holds for
  them. The first hypothesis names the construct; the other two say that the
  computation ran, under the lock \<open>l\<close>, and raised.
\<close>

theorem exception_releases_lock:
  fixes body :: "state \<Rightarrow> ('e, 'v) outcome" and impl :: "ref \<Rightarrow> ('e, 'v) pyfun"
  assumes "w = with_ObjectLock key body s \<or>
           key = func \<and> body = impl func args kw \<and>
             w = synchronized_func impl func args kw s \<or>
           bind_self args kw = Some (key, rest, kw') \<and> body = impl func (key # rest) kw' \<and>
             w = synchronized_method impl func args kw s"
    and "get_lock key s = (Inr (Lock l) :: 'e exn + pyval, s1)"
    and "body (acquire l s1) = (Inl x, s3)"
  shows "(0 < holds s3 l \<longrightarrow> w = (Inl x, s3\<lparr>holds := (holds s3)(l := holds s3 l - 1)\<rparr>)) \<and>
         (holds s3 l = holds (acquire l s1) l \<longrightarrow>
            w = (Inl x, s3\<lparr>holds := (holds s3)(l := holds s1 l)\<rparr>)) \<and>
         (holds s3 l = 0 \<longrightarrow> w = (Inl AssertionError, s3))"
proof -
  have w: "w = with_ObjectLock key body s"
    using assms(1) by (auto simp: synchronized_func_def synchronized_method_def)
  show ?thesis
    unfolding w using assms(2,3) by (auto simp: with_ObjectLock_char acquire_def)
qed

theorem exception_releases_lock_witness:
  "with_ObjectLock 1 (demo_impl 2 [] Map.empty) demo
     = (Inl (Raised ''TypeError''), attach 1 (NewLock 0) demo) \<and>
   synchronized_func demo_impl 2 [] Map.empty demo
     = (Inl (Raised ''TypeError''), attach 2 (NewLock 0) demo) \<and>
   synchronized_method demo_impl 0 [1] Map.empty demo
     = (Inl (Raised ''TypeError''), attach 1 (NewLock 0) demo) \<and>
   holds (attach 1 (NewLock 0) demo) (NewLock 0) = 0 \<and>
   synchronized_method demo_impl 10 [1] Map.empty demo
     = (Inl AssertionError, attach 1 (NewLock 0) demo)"
proof -
  have b: "demo_impl 2 [] Map.empty (acquire (NewLock 0) (attach t (NewLock 0) demo))
             = (Inl (Raised ''TypeError''), acquire (NewLock 0) (attach t (NewLock 0) demo))"
    and c: "demo_impl 0 [1] Map.empty (acquire (NewLock 0) (attach t (NewLock 0) demo))
             = (Inl (Raised ''TypeError''), acquire (NewLock 0) (attach t (NewLock 0) demo))" for t
    by (simp_all add: demo_impl_def)
  have d: "demo_impl 10 [1] Map.empty (acquire (NewLock 0) (attach 1 (NewLock 0) demo))
             = (Inl (Raised ''ValueError''), attach 1 (NewLock 0) demo)"
    by (simp add: demo_impl_def getattr_def release_def acquire_def demo_defs)
  have k: "bind_self [1] Map.empty = Some (1, [], Map.empty)"
    by (simp add: bind_self_def)
  have c1: "with_ObjectLock 1 (demo_impl 2 [] Map.empty) demo
     = (Inl (Raised ''TypeError''), attach 1 (NewLock 0) demo)"
    using exception_releases_lock [where impl = demo_impl and key = 1
        and body = "demo_impl 2 [] Map.empty", OF disjI1, OF refl demo_get_lock_1 b [of 1]]
    by (simp add: attach_idle del: One_nat_def)
  have c2: "synchronized_func demo_impl 2 [] Map.empty demo
     = (Inl (Raised ''TypeError''), attach 2 (NewLock 0) demo)"
    using exception_releases_lock [where impl = demo_impl and func = 2 and args = "[]"
        and kw = Map.empty, OF disjI2, OF disjI1, OF conjI, OF refl conjI,
        OF refl refl demo_get_lock_2 b [of 2]]
    by (simp add: attach_idle del: One_nat_def)
  have c3: "synchronized_method demo_impl 0 [1] Map.empty demo
     = (Inl (Raised ''TypeError''), attach 1 (NewLock 0) demo)"
    using exception_releases_lock [where impl = demo_impl and func = 0, OF disjI2, OF disjI2,
        OF conjI, OF k conjI, OF refl refl demo_get_lock_1 c [of 1]]
    by (simp add: attach_idle del: One_nat_def)
  have c4: "synchronized_method demo_impl 10 [1] Map.empty demo
     = (Inl AssertionError, attach 1 (NewLock 0) demo)"
    using exception_releases_lock [where impl = demo_impl and func = 10, OF disjI2, OF disjI2,
        OF conjI, OF k conjI, OF refl refl demo_get_lock_1 d]
    by (simp add: attach_idle del: One_nat_def)
  show ?thesis using c1 c2 c3 c4 by (simp add: holds_attach)
qed

section \<open>The errors of the layer itself\<close>




section \<open>Locks of distinct targets\<close>











section \<open>The race for the lock of a new target\<close>























subsection \<open>Every caller can finish\<close>



















subsection \<open>A thread on its own\<close>

lemma step_Start:
  "pcs c i = Start \<Longrightarrow> locks c ClassLock = None \<Longrightarrow>
   step obj i c = c\<lparr>locks := (locks c)(ClassLock \<mapsto> (i, 1)), pcs := (pcs c)(i := Entered)\<rparr>"
  by (simp add: step_def acquire_by_def)

lemma step_Start_waits:
  "pcs c i = Start \<Longrightarrow> locks c ClassLock = Some (k, n) \<Longrightarrow> k \<noteq> i \<Longrightarrow> step obj i c = c"
  by (simp add: step_def acquire_by_def)

lemma step_Entered:
  "pcs c i = Entered \<Longrightarrow>
   step obj i c = c\<lparr>pcs := (pcs c)(i := if resolve (shared c) obj LOCK_NAME = None
                                          then Creating else Reading)\<rparr>"
  by (simp add: step_def hasattr_def)

lemma step_Creating:
  "pcs c i = Creating \<Longrightarrow>
   step obj i c = c\<lparr>shared := wasted (shared c),
                    pcs := (pcs c)(i := Attaching (NewLock (created (shared c))))\<rparr>"
  by (simp add: step_def RLock_def wasted_def)

lemma step_Attaching_refused:
  "pcs c i = Attaching l \<Longrightarrow> readonly (objs (shared c) obj) \<Longrightarrow>
   step obj i c = c\<lparr>shared := shared c, pcs := (pcs c)(i := Leaving (Inl TypeError))\<rparr>"
  by (simp add: step_def setattr_def)

lemma step_Attaching_no_dict:
  "pcs c i = Attaching l \<Longrightarrow> \<not> readonly (objs (shared c) obj) \<Longrightarrow>
   pdict (objs (shared c) obj) = None \<Longrightarrow>
   step obj i c = c\<lparr>shared := shared c, pcs := (pcs c)(i := Leaving (Inl AttributeError))\<rparr>"
  by (simp add: step_def setattr_def)

lemma step_Attaching_done:
  "pcs c i = Attaching l \<Longrightarrow> \<not> readonly (objs (shared c) obj) \<Longrightarrow>
   pdict (objs (shared c) obj) = Some d \<Longrightarrow>
   step obj i c
     = c\<lparr>shared := (shared c)\<lparr>objs := (objs (shared c))(obj := (objs (shared c) obj)
                       \<lparr>pdict := Some (d(LOCK_NAME \<mapsto> Lock l))\<rparr>)\<rparr>,
         pcs := (pcs c)(i := Reading)\<rparr>"
  by (simp add: step_def setattr_def)

lemma step_Reading:
  "pcs c i = Reading \<Longrightarrow> resolve (shared c) obj LOCK_NAME = Some v \<Longrightarrow>
   step obj i c = c\<lparr>shared := shared c, pcs := (pcs c)(i := Leaving (Inr v))\<rparr>"
  by (simp add: step_def getattr_def)

lemma step_Leaving:
  "pcs c i = Leaving r \<Longrightarrow> locks c ClassLock = Some (i, 1) \<Longrightarrow>
   step obj i c = c\<lparr>locks := (locks c)(ClassLock := None), pcs := (pcs c)(i := Done r)\<rparr>"
  by (simp add: step_def release_by_def)

lemma step_Done:
  "pcs c i = Done r \<Longrightarrow> step obj i c = c"
  by (simp add: step_def)

lemmas step_simps = step_Start step_Start_waits step_Entered step_Creating step_Attaching_refused
  step_Attaching_no_dict step_Attaching_done step_Reading step_Leaving step_Done

text \<open>
  A thread that runs with no other thread about goes through the operations of
  \<^verbatim>\<open>_get_lock\<close> in the order of the function, and ends with the function's result and
  the function's effect on the objects.
\<close>

lemma thread_alone_is_get_lock:
  "pcs (run obj (replicate 6 i) (init s)) i = Done (fst (get_lock obj s)) \<and>
   objs (shared (run obj (replicate 6 i) (init s))) = objs (snd (get_lock obj s)) \<and>
   created (shared (run obj (replicate 6 i) (init s))) = created (snd (get_lock obj s)) \<and>
   locks (run obj (replicate 6 i) (init s)) ClassLock = None"
proof (cases "resolve s obj LOCK_NAME")
  case (Some v)
  then show ?thesis
    by (simp add: eval_nat_numeral get_lock_char init_def step_simps)
next
  case None
  show ?thesis
  proof (cases "readonly (objs s obj)")
    case True
    with None show ?thesis
      by (simp add: eval_nat_numeral get_lock_char init_def step_simps)
  next
    case False
    show ?thesis
    proof (cases "pdict (objs s obj)")
      case n: None
      with None False show ?thesis
        by (simp add: eval_nat_numeral get_lock_char init_def step_simps)
    next
      case (Some d)
      have "resolve ((wasted s)\<lparr>objs := (objs s)(obj := (objs s obj)
                \<lparr>pdict := Some (d(LOCK_NAME \<mapsto> Lock (NewLock (created s))))\<rparr>)\<rparr>)
              obj LOCK_NAME = Some (Lock (NewLock (created s)))"
        by (simp add: resolve_def own_attr_def)
      with None False Some show ?thesis
        by (simp add: eval_nat_numeral get_lock_char init_def step_simps)
    qed
  qed
qed




end
